theory Spec2Isabelle
  imports Complex_Main "HOL-Library.AList"
begin

section \<open>Python values used by the converters\<close>

text \<open>
  The two converter scripts (\<^verbatim>\<open>geofabrik_to_csv.py\<close> and \<^verbatim>\<open>geofabrik_to_csv_pbf.py\<close>)
  are embedded function by function. Python strings are \<^typ>\<open>string\<close>; a tag dictionary
  is an association list read with \<^const>\<open>map_of\<close> and written with \<^const>\<open>AList.update\<close>,
  so that a later assignment to a key replaces the earlier one as in a \<^verbatim>\<open>dict\<close>.
\<close>

type_synonym dict = "(string \<times> string) list"

definition get :: "dict \<Rightarrow> string \<Rightarrow> string option" where
  \<comment> \<open>\<^verbatim>\<open>d.get(k)\<close>: \<open>None\<close> when the key is absent\<close>
  "get d k = map_of d k"

definition get_or :: "dict \<Rightarrow> string \<Rightarrow> string \<Rightarrow> string" where
  \<comment> \<open>\<^verbatim>\<open>d.get(k, default)\<close>\<close>
  "get_or d k dflt = (case map_of d k of None \<Rightarrow> dflt | Some v \<Rightarrow> v)"

definition setitem :: "dict \<Rightarrow> string \<Rightarrow> string \<Rightarrow> dict" where
  \<comment> \<open>\<^verbatim>\<open>d[k] = v\<close>\<close>
  "setitem d k v = AList.update k v d"

definition truthy :: "string option \<Rightarrow> bool" where
  \<comment> \<open>truth value of a \<^verbatim>\<open>str | None\<close>: \<open>None\<close> and the empty string are false\<close>
  "truthy s = (case s of None \<Rightarrow> False | Some v \<Rightarrow> v \<noteq> [])"

fun startswith :: "string \<Rightarrow> string \<Rightarrow> bool" where
  "startswith s [] = True"
| "startswith [] (p # ps) = False"
| "startswith (c # cs) (p # ps) = (c = p \<and> startswith cs ps)"

definition endswith :: "string \<Rightarrow> string \<Rightarrow> bool" where
  "endswith s suf = startswith (rev s) (rev suf)"

fun contains :: "string \<Rightarrow> string \<Rightarrow> bool" where
  \<comment> \<open>\<^verbatim>\<open>sub in s\<close> for strings\<close>
  "contains [] sub = (sub = [])"
| "contains (c # cs) sub = (startswith (c # cs) sub \<or> contains cs sub)"

fun join :: "string \<Rightarrow> string list \<Rightarrow> string" where
  \<comment> \<open>\<^verbatim>\<open>sep.join(parts)\<close>\<close>
  "join sep [] = []"
| "join sep [x] = x"
| "join sep (x # y # ys) = x @ sep @ join sep (y # ys)"

text \<open>
  Case conversion and whitespace stripping are modelled on ASCII, which is exact for the
  category labels the scripts apply \<^verbatim>\<open>title()\<close> to; on a tag value with letters outside
  ASCII, Python's \<^verbatim>\<open>lower()\<close> and \<^verbatim>\<open>strip()\<close> also treat those letters and spaces.
\<close>

definition is_upper :: "char \<Rightarrow> bool" where
  "is_upper c = (65 \<le> (of_char c :: nat) \<and> (of_char c :: nat) \<le> 90)"

definition is_lower :: "char \<Rightarrow> bool" where
  "is_lower c = (97 \<le> (of_char c :: nat) \<and> (of_char c :: nat) \<le> 122)"

definition lower_char :: "char \<Rightarrow> char" where
  "lower_char c = (if is_upper c then char_of ((of_char c :: nat) + 32) else c)"

definition upper_char :: "char \<Rightarrow> char" where
  "upper_char c = (if is_lower c then char_of ((of_char c :: nat) - 32) else c)"

definition lower :: "string \<Rightarrow> string" where
  "lower s = map lower_char s"

fun title_from :: "bool \<Rightarrow> string \<Rightarrow> string" where
  \<comment> \<open>the flag says whether the previous character was a letter\<close>
  "title_from prev [] = []"
| "title_from prev (c # cs) =
     (if is_upper c \<or> is_lower c
      then (if prev then lower_char c else upper_char c) # title_from True cs
      else c # title_from False cs)"

definition title :: "string \<Rightarrow> string" where
  "title s = title_from False s"

definition is_space :: "char \<Rightarrow> bool" where
  "is_space c = ((of_char c :: nat) \<in> {9, 10, 11, 12, 13, 28, 29, 30, 31, 32})"

definition strip :: "string \<Rightarrow> string" where
  "strip s = rev (dropWhile is_space (rev (dropWhile is_space s)))"

text \<open>
  A Python float is a finite number, an infinity or a NaN; the scripts only compare
  floats, and every comparison with a NaN is false.
\<close>

datatype pyfloat = Fin real | PInf | NInf | NaN

fun fle :: "pyfloat \<Rightarrow> pyfloat \<Rightarrow> bool" where
  "fle NaN y = False"
| "fle x NaN = False"
| "fle NInf y = True"
| "fle x PInf = True"
| "fle (Fin a) (Fin b) = (a \<le> b)"
| "fle PInf y = False"
| "fle x NInf = False"

text \<open>
  \<^verbatim>\<open>float(s)\<close> is a builtin: the parsers take it as a parameter that returns \<open>None\<close>
  where Python raises \<^verbatim>\<open>ValueError\<close>. \<open>float_int\<close> is one such function, used to
  run the parsers on concrete documents: it reads an optional minus sign followed by
  decimal digits, as \<^verbatim>\<open>float\<close> does for the short literals used here, and is \<open>None\<close>
  on every other string.
\<close>

type_synonym float_fn = "string \<Rightarrow> pyfloat option"

definition digit_val :: "char \<Rightarrow> nat option" where
  "digit_val c = (if 48 \<le> (of_char c :: nat) \<and> (of_char c :: nat) \<le> 57
                  then Some ((of_char c :: nat) - 48) else None)"

fun digits_val :: "nat \<Rightarrow> string \<Rightarrow> nat option" where
  "digits_val acc [] = Some acc"
| "digits_val acc (c # cs) =
     (case digit_val c of None \<Rightarrow> None | Some d \<Rightarrow> digits_val (10 * acc + d) cs)"

definition float_int :: float_fn where
  "float_int s =
     (case s of
        [] \<Rightarrow> None
      | c # cs \<Rightarrow>
          if c = CHR ''-'' then
            (if cs = [] then None
             else map_option (\<lambda>n. Fin (- real n)) (digits_val 0 cs))
          else map_option (\<lambda>n. Fin (real n)) (digits_val 0 (c # cs)))"

section \<open>Categorizers\<close>

subsection \<open>\<^verbatim>\<open>geofabrik_to_csv.py\<close>: \<^verbatim>\<open>categorize_poi\<close>\<close>

definition categorize_poi :: "dict \<Rightarrow> string" where
  "categorize_poi tags =
    (let amenity = get_or tags ''amenity'' '''';
         shop = get_or tags ''shop'' '''';
         tourism = get_or tags ''tourism'' '''';
         healthcare = get_or tags ''healthcare'' ''''
     in
     if amenity \<in> set [''restaurant'', ''cafe'', ''fast_food'', ''bar'', ''pub'', ''food_court'']
       then ''restaurant''
     else if amenity \<in> set [''hotel'', ''guest_house'', ''hostel'', ''motel'']
             \<or> tourism \<in> set [''hotel'', ''hostel'', ''guest_house'']
       then ''hotel''
     else if amenity \<in> set [''hospital'', ''clinic'', ''pharmacy'', ''dentist'', ''doctors'']
             \<or> healthcare \<noteq> []
       then ''hospital''
     else if amenity \<in> set [''bus_station'', ''taxi'', ''fuel'', ''parking'', ''ferry_terminal'']
       then ''transportation''
     else if amenity \<in> set [''school'', ''university'', ''college'', ''library'']
       then ''education''
     else if shop \<noteq> [] \<or> amenity \<in> set [''marketplace'', ''mall'']
       then ''shopping''
     else if amenity \<in> set [''bank'', ''atm'']
       then ''bank''
     else if amenity \<in> set [''police'', ''fire_station'', ''hospital'']
       then ''emergency''
     else if tourism \<in> set [''attraction'', ''museum'', ''gallery'', ''zoo'', ''theme_park'']
       then ''tourism''
     else if amenity \<in> set [''cinema'', ''theatre'', ''casino'', ''nightclub'']
       then ''entertainment''
     else ''other'')"

subsection \<open>\<^verbatim>\<open>geofabrik_to_csv_pbf.py\<close>: \<^verbatim>\<open>categorize_poi_xml\<close> and \<^verbatim>\<open>POIHandler.categorize_poi\<close>\<close>

definition categorize_poi_xml :: "dict \<Rightarrow> string option" where
  "categorize_poi_xml tags =
    (let amenity = get_or tags ''amenity'' '''';
         shop = get_or tags ''shop'' '''';
         tourism = get_or tags ''tourism'' '''';
         healthcare = get_or tags ''healthcare'' '''';
         railway = get_or tags ''railway'' '''';
         aeroway = get_or tags ''aeroway'' '''';
         highway = get_or tags ''highway'' '''';
         leisure = get_or tags ''leisure'' ''''
     in
     if amenity \<in> set [''restaurant'', ''cafe'', ''fast_food'', ''bar'', ''pub'', ''food_court'',
                        ''biergarten'']
       then Some ''restaurant''
     else if amenity \<in> set [''hotel'', ''guest_house'', ''hostel'', ''motel'']
             \<or> tourism \<in> set [''hotel'', ''hostel'', ''guest_house'', ''motel'']
       then Some ''hotel''
     else if amenity \<in> set [''hospital'', ''clinic'', ''pharmacy'', ''dentist'', ''doctors'',
                             ''veterinary'']
             \<or> healthcare \<noteq> []
       then Some ''hospital''
     else if amenity \<in> set [''bus_station'', ''taxi'', ''fuel'', ''ferry_terminal'']
             \<or> railway \<in> set [''station'', ''halt'', ''tram_stop'']
             \<or> aeroway \<in> set [''aerodrome'', ''helipad'']
             \<or> highway = ''bus_stop''
       then Some ''transportation''
     else if amenity \<in> set [''fuel'', ''charging_station'']
       then Some ''gas_station''
     else if shop \<noteq> []
             \<or> amenity \<in> set [''marketplace'', ''shopping_centre'']
             \<or> (tourism = ''attraction'' \<and> contains (lower (get_or tags ''name'' '''')) ''market'')
       then Some ''shopping''
     else if leisure \<in> set [''park'', ''playground'', ''sports_centre'', ''stadium'',
                             ''swimming_pool'', ''golf_course'']
             \<or> amenity \<in> set [''theatre'', ''cinema'', ''arts_centre'']
             \<or> tourism \<in> set [''zoo'', ''theme_park'']
       then Some ''recreation''
     else if amenity \<in> set [''school'', ''university'', ''college'', ''kindergarten'', ''library'']
       then Some ''education''
     else if tourism \<in> set [''attraction'', ''museum'', ''monument'', ''viewpoint'', ''gallery'',
                             ''information'']
             \<or> amenity \<in> set [''place_of_worship'']
             \<or> truthy (get tags ''historic'')
       then Some ''tourism''
     else if amenity \<in> set [''bank'', ''atm'', ''post_office'', ''police'', ''fire_station'',
                             ''courthouse'', ''townhall'']
       then Some ''services''
     else None)"

definition POIHandler_categorize_poi :: "dict \<Rightarrow> string option" where
  \<comment> \<open>the method does not read \<^verbatim>\<open>self\<close>\<close>
  "POIHandler_categorize_poi tags =
    (let amenity = get_or tags ''amenity'' '''';
         shop = get_or tags ''shop'' '''';
         tourism = get_or tags ''tourism'' '''';
         healthcare = get_or tags ''healthcare'' '''';
         railway = get_or tags ''railway'' '''';
         aeroway = get_or tags ''aeroway'' '''';
         highway = get_or tags ''highway'' '''';
         leisure = get_or tags ''leisure'' ''''
     in
     if amenity \<in> set [''restaurant'', ''cafe'', ''fast_food'', ''bar'', ''pub'', ''food_court'',
                        ''biergarten'']
       then Some ''restaurant''
     else if amenity \<in> set [''hotel'', ''guest_house'', ''hostel'', ''motel'']
             \<or> tourism \<in> set [''hotel'', ''hostel'', ''guest_house'', ''motel'']
       then Some ''hotel''
     else if amenity \<in> set [''hospital'', ''clinic'', ''pharmacy'', ''dentist'', ''doctors'',
                             ''veterinary'']
             \<or> healthcare \<noteq> []
       then Some ''hospital''
     else if amenity \<in> set [''bus_station'', ''taxi'', ''fuel'', ''ferry_terminal'']
             \<or> railway \<in> set [''station'', ''halt'', ''tram_stop'']
             \<or> aeroway \<in> set [''aerodrome'', ''helipad'']
             \<or> highway = ''bus_stop''
       then Some ''transportation''
     else if amenity \<in> set [''fuel'', ''charging_station'']
       then Some ''gas_station''
     else if shop \<noteq> []
             \<or> amenity \<in> set [''marketplace'', ''shopping_centre'']
             \<or> (tourism = ''attraction'' \<and> contains (lower (get_or tags ''name'' '''')) ''market'')
       then Some ''shopping''
     else if leisure \<in> set [''park'', ''playground'', ''sports_centre'', ''stadium'',
                             ''swimming_pool'', ''golf_course'']
             \<or> amenity \<in> set [''theatre'', ''cinema'', ''arts_centre'']
             \<or> tourism \<in> set [''zoo'', ''theme_park'']
       then Some ''recreation''
     else if amenity \<in> set [''school'', ''university'', ''college'', ''kindergarten'', ''library'']
       then Some ''education''
     else if tourism \<in> set [''attraction'', ''museum'', ''monument'', ''viewpoint'', ''gallery'',
                             ''information'']
             \<or> amenity \<in> set [''place_of_worship'']
             \<or> truthy (get tags ''historic'')
       then Some ''tourism''
     else if amenity \<in> set [''bank'', ''atm'', ''post_office'', ''police'', ''fire_station'',
                             ''courthouse'', ''townhall'']
       then Some ''services''
     else None)"

section \<open>Description builders of \<^verbatim>\<open>geofabrik_to_csv_pbf.py\<close>\<close>

definition get_description_xml :: "dict \<Rightarrow> string" where
  "get_description_xml tags =
    (let parts = [];
         parts = (case get tags ''amenity'' of None \<Rightarrow> parts
                  | Some v \<Rightarrow> parts @ [''Amenity: '' @ v]);
         parts = (case get tags ''shop'' of None \<Rightarrow> parts
                  | Some v \<Rightarrow> parts @ [''Shop: '' @ v]);
         parts = (case get tags ''tourism'' of None \<Rightarrow> parts
                  | Some v \<Rightarrow> parts @ [''Tourism: '' @ v]);
         parts = (case get tags ''addr:street'' of None \<Rightarrow> parts
                  | Some v \<Rightarrow> parts @ [''Street: '' @ v]);
         parts = (case get tags ''addr:city'' of None \<Rightarrow> parts
                  | Some v \<Rightarrow> parts @ [''City: '' @ v]);
         parts = (case get tags ''cuisine'' of None \<Rightarrow> parts
                  | Some v \<Rightarrow> parts @ [''Cuisine: '' @ v]);
         parts = (case get tags ''description'' of None \<Rightarrow> parts
                  | Some v \<Rightarrow> parts @ [v])
     in if parts \<noteq> [] then join ''; '' parts else ''OSM Point of Interest'')"

definition POIHandler_get_description :: "dict \<Rightarrow> string" where
  "POIHandler_get_description tags =
    (let parts = [];
         parts = (case get tags ''amenity'' of None \<Rightarrow> parts
                  | Some v \<Rightarrow> parts @ [''Amenity: '' @ v]);
         parts = (case get tags ''shop'' of None \<Rightarrow> parts
                  | Some v \<Rightarrow> parts @ [''Shop: '' @ v]);
         parts = (case get tags ''tourism'' of None \<Rightarrow> parts
                  | Some v \<Rightarrow> parts @ [''Tourism: '' @ v]);
         parts = (case get tags ''addr:street'' of None \<Rightarrow> parts
                  | Some v \<Rightarrow> parts @ [''Street: '' @ v]);
         parts = (case get tags ''addr:city'' of None \<Rightarrow> parts
                  | Some v \<Rightarrow> parts @ [''City: '' @ v]);
         parts = (case get tags ''cuisine'' of None \<Rightarrow> parts
                  | Some v \<Rightarrow> parts @ [''Cuisine: '' @ v]);
         parts = (case get tags ''description'' of None \<Rightarrow> parts
                  | Some v \<Rightarrow> parts @ [v])
     in if parts \<noteq> [] then join ''; '' parts else ''OSM Point of Interest'')"

section \<open>Records, event streams and failures\<close>

record poi =
  name :: string
  category :: string
  latitude :: pyfloat
  longitude :: pyfloat
  description :: string

datatype error =
  ParseError | ValueError | InvalidLocationError | DecodeError | ImportError | NameError

text \<open>
  What \<^verbatim>\<open>ET.iterparse(file, events=('start', 'end'))\<close> delivers for one file: a start
  event with the element's tag and attributes, an end event with its tag, or an exception
  raised by the tokenizer (or by opening the file) at that point of the stream.
\<close>

datatype xml_item = StartEv string dict | EndEv string | Fails

type_synonym bounds = "pyfloat \<times> pyfloat \<times> pyfloat \<times> pyfloat"

definition in_bounds :: "bounds \<Rightarrow> pyfloat \<Rightarrow> pyfloat \<Rightarrow> bool" where
  \<comment> \<open>\<^verbatim>\<open>min_lat <= lat <= max_lat and min_lng <= lon <= max_lng\<close>\<close>
  "in_bounds b lat lon =
     (case b of (min_lat, max_lat, min_lng, max_lng) \<Rightarrow>
        fle min_lat lat \<and> fle lat max_lat \<and> fle min_lng lon \<and> fle lon max_lng)"

definition cap_reached :: "int option \<Rightarrow> nat \<Rightarrow> bool" where
  \<comment> \<open>\<^verbatim>\<open>max_pois and len(pois) >= max_pois\<close>: \<open>None\<close> and \<open>0\<close> are false\<close>
  "cap_reached max_pois n =
     (case max_pois of None \<Rightarrow> False | Some m \<Rightarrow> m \<noteq> 0 \<and> m \<le> int n)"

section \<open>\<^verbatim>\<open>geofabrik_to_csv_pbf.py\<close>: the XML parser\<close>

text \<open>
  The body of the \<^verbatim>\<open>for event, elem in context\<close> loop of \<^verbatim>\<open>parse_osm_xml\<close>, with the
  loop variables \<open>current_node\<close>, \<open>current_tags\<close> and \<open>pois\<close> passed along. \<open>Inl\<close> is
  an exception leaving the loop, \<open>Inr\<close> the list at the end of the stream or at
  \<^verbatim>\<open>break\<close>. A category returned by the categorizer is never the empty string, so
  \<^verbatim>\<open>if category\<close> is the test for \<open>Some\<close>.
\<close>

fun xml_loop ::
  "float_fn \<Rightarrow> bounds option \<Rightarrow> int option \<Rightarrow> xml_item list \<Rightarrow>
   (pyfloat \<times> pyfloat) option \<Rightarrow> dict \<Rightarrow> poi list \<Rightarrow> error + poi list" where
  "xml_loop fl bnds max_pois [] current_node current_tags pois = Inr pois"
| "xml_loop fl bnds max_pois (Fails # rest) current_node current_tags pois = Inl ParseError"
| "xml_loop fl bnds max_pois (StartEv tag attrs # rest) current_node current_tags pois =
     (if tag = ''node'' then
        (if truthy (get attrs ''lat'') \<and> truthy (get attrs ''lon'') then
           (case fl (get_or attrs ''lat'' []) of
              None \<Rightarrow> Inl ValueError
            | Some lat \<Rightarrow>
                (case fl (get_or attrs ''lon'' []) of
                   None \<Rightarrow> Inl ValueError
                 | Some lon \<Rightarrow> xml_loop fl bnds max_pois rest (Some (lat, lon)) [] pois))
         else xml_loop fl bnds max_pois rest current_node current_tags pois)
      else if tag = ''tag'' \<and> current_node \<noteq> None then
        (if truthy (get attrs ''k'') \<and> truthy (get attrs ''v'') then
           xml_loop fl bnds max_pois rest current_node
             (setitem current_tags (get_or attrs ''k'' []) (get_or attrs ''v'' [])) pois
         else xml_loop fl bnds max_pois rest current_node current_tags pois)
      else xml_loop fl bnds max_pois rest current_node current_tags pois)"
| "xml_loop fl bnds max_pois (EndEv tag # rest) current_node current_tags pois =
     (case current_node of
        None \<Rightarrow> xml_loop fl bnds max_pois rest current_node current_tags pois
      | Some (lat, lon) \<Rightarrow>
          if tag = ''node'' \<and> current_tags \<noteq> [] then
            (if (case bnds of None \<Rightarrow> False | Some b \<Rightarrow> \<not> in_bounds b lat lon) then
               xml_loop fl bnds max_pois rest None [] pois
             else
               (case categorize_poi_xml current_tags of
                  None \<Rightarrow> xml_loop fl bnds max_pois rest None [] pois
                | Some c \<Rightarrow>
                    (let category = c;
                         name = get_or current_tags ''name'' (''Unknown '' @ title category);
                         description = get_description_xml current_tags;
                         pois = pois @ [\<lparr>name = name, category = category, latitude = lat,
                                         longitude = lon, description = description\<rparr>]
                     in if cap_reached max_pois (length pois) then Inr pois
                        else xml_loop fl bnds max_pois rest None [] pois)))
          else xml_loop fl bnds max_pois rest current_node current_tags pois)"

definition parse_osm_xml_pbf ::
  "float_fn \<Rightarrow> xml_item list \<Rightarrow> bounds option \<Rightarrow> int option \<Rightarrow> poi list" where
  \<comment> \<open>the first event is taken by \<^verbatim>\<open>next(context)\<close>; every exception returns \<open>[]\<close>\<close>
  "parse_osm_xml_pbf fl file bnds max_pois =
     (case file of
        [] \<Rightarrow> []
      | Fails # rest \<Rightarrow> []
      | StartEv tag attrs # rest \<Rightarrow>
          (case xml_loop fl bnds max_pois rest None [] [] of Inl e \<Rightarrow> [] | Inr pois \<Rightarrow> pois)
      | EndEv tag # rest \<Rightarrow>
          (case xml_loop fl bnds max_pois rest None [] [] of Inl e \<Rightarrow> [] | Inr pois \<Rightarrow> pois))"

section \<open>\<^verbatim>\<open>geofabrik_to_csv_pbf.py\<close>: the osmium handler\<close>

text \<open>
  A node as osmium hands it to the callback: its tag list and its location. Reading
  \<^verbatim>\<open>n.location.lat\<close> of an invalid location (\<open>None\<close> here) raises.
\<close>

record osm_node =
  location :: "(pyfloat \<times> pyfloat) option"
  node_tags :: "(string \<times> string) list"

record POIHandler =
  self_pois :: "poi list"
  self_bounds :: "bounds option"
  self_max_pois :: "int option"
  self_processed_count :: int

definition POIHandler_init :: "bounds option \<Rightarrow> int option \<Rightarrow> POIHandler" where
  "POIHandler_init bnds max_pois =
     \<lparr>self_pois = [], self_bounds = bnds, self_max_pois = max_pois, self_processed_count = 0\<rparr>"

definition dict_of :: "(string \<times> string) list \<Rightarrow> dict" where
  \<comment> \<open>\<^verbatim>\<open>{tag.k: tag.v for tag in n.tags}\<close>\<close>
  "dict_of kvs = foldl (\<lambda>d (k, v). setitem d k v) [] kvs"

definition POIHandler_node :: "POIHandler \<Rightarrow> osm_node \<Rightarrow> error + POIHandler" where
  "POIHandler_node self n =
     (if cap_reached (self_max_pois self) (length (self_pois self)) then Inr self
      else
        (case (case self_bounds self of
                 None \<Rightarrow> Inr True
               | Some b \<Rightarrow>
                   (case location n of
                      None \<Rightarrow> Inl InvalidLocationError
                    | Some (lat, lon) \<Rightarrow> Inr (in_bounds b lat lon))) of
           Inl e \<Rightarrow> Inl e
         | Inr inside \<Rightarrow>
             if \<not> inside then Inr self
             else
               (let tags = dict_of (node_tags n) in
                if tags = [] then Inr self
                else
                  (case POIHandler_categorize_poi tags of
                     None \<Rightarrow> Inr self
                   | Some c \<Rightarrow>
                       (let category = c;
                            name = get_or tags ''name'' (''Unknown '' @ title category);
                            description = POIHandler_get_description tags
                        in case location n of
                             None \<Rightarrow> Inl InvalidLocationError
                           | Some (lat, lng) \<Rightarrow>
                               if \<not> (fle (Fin (- 90)) lat \<and> fle lat (Fin 90) \<and>
                                      fle (Fin (- 180)) lng \<and> fle lng (Fin 180))
                               then Inr self
                               else Inr (self\<lparr>self_pois := self_pois self @
                                      [\<lparr>name = name, category = category, latitude = lat,
                                        longitude = lng, description = description\<rparr>]\<rparr>))))))"

text \<open>
  What osmium delivers for one file: a node, or an exception raised by the decoder at that
  point. \<^verbatim>\<open>apply_file\<close> calls the handler's \<^verbatim>\<open>node\<close> callback on every node of the file,
  whatever the callback returns, and lets an exception of the callback through.
\<close>

datatype pbf_item = Node osm_node | Corrupt

fun apply_file :: "POIHandler \<Rightarrow> pbf_item list \<Rightarrow> error + POIHandler" where
  "apply_file handler [] = Inr handler"
| "apply_file handler (Corrupt # rest) = Inl DecodeError"
| "apply_file handler (Node n # rest) =
     (case POIHandler_node handler n of
        Inl e \<Rightarrow> Inl e
      | Inr handler' \<Rightarrow> apply_file handler' rest)"

definition parse_osm_pbf ::
  "bool \<Rightarrow> pbf_item list \<Rightarrow> bounds option \<Rightarrow> int option \<Rightarrow> error + poi list" where
  "parse_osm_pbf OSMIUM_AVAILABLE file bnds max_pois =
     (if \<not> OSMIUM_AVAILABLE then Inl ImportError
      else
        (case apply_file (POIHandler_init bnds max_pois) file of
           Inl e \<Rightarrow> Inl e
         | Inr handler \<Rightarrow> Inr (self_pois handler)))"

section \<open>\<^verbatim>\<open>geofabrik_to_csv_pbf.py\<close>: \<^verbatim>\<open>main\<close>\<close>

text \<open>
  An input file is its path together with what each of the two libraries delivers when it
  reads the file. \<^verbatim>\<open>main\<close> is embedded from the list \<open>osm_files\<close> on; its result is the
  exit status \<open>1\<close> or the records handed to \<^verbatim>\<open>write_csv\<close>. In the loop, \<open>Inl\<close> is the
  \<^verbatim>\<open>return 1\<close> taken inside it. The module's flag \<open>OSMIUM_AVAILABLE\<close>, which
  \<^verbatim>\<open>main\<close> reads, and the command-line values \<open>bounds\<close> and \<open>max_pois\<close> are
  parameters; the value the flag has when \<^verbatim>\<open>main\<close> runs is set by the load of the
  module, embedded after \<^verbatim>\<open>main\<close>.
\<close>

record osm_file =
  path :: string
  xml_events :: "xml_item list"
  pbf_items :: "pbf_item list"

datatype run = Exit1 | Written "poi list"

fun main_loop ::
  "float_fn \<Rightarrow> bool \<Rightarrow> bounds option \<Rightarrow> int \<Rightarrow> osm_file list \<Rightarrow> poi list \<Rightarrow>
   unit + poi list" where
  "main_loop fl OSMIUM_AVAILABLE bnds max_pois [] all_pois = Inr all_pois"
| "main_loop fl OSMIUM_AVAILABLE bnds max_pois (f # rest) all_pois =
     (if endswith (path f) ''.pbf'' then
        (if \<not> OSMIUM_AVAILABLE then Inl ()
         else
           (case parse_osm_pbf OSMIUM_AVAILABLE (pbf_items f) bnds
                   (Some (max_pois - int (length all_pois))) of
              Inl e \<Rightarrow> main_loop fl OSMIUM_AVAILABLE bnds max_pois rest all_pois
            | Inr pois \<Rightarrow>
                if max_pois \<noteq> 0 \<and> max_pois \<le> int (length (all_pois @ pois))
                then Inr (all_pois @ pois)
                else main_loop fl OSMIUM_AVAILABLE bnds max_pois rest (all_pois @ pois)))
      else
        (let pois = parse_osm_xml_pbf fl (xml_events f) bnds
                      (Some (max_pois - int (length all_pois)))
         in if max_pois \<noteq> 0 \<and> max_pois \<le> int (length (all_pois @ pois))
            then Inr (all_pois @ pois)
            else main_loop fl OSMIUM_AVAILABLE bnds max_pois rest (all_pois @ pois)))"

definition main_pbf ::
  "float_fn \<Rightarrow> bool \<Rightarrow> bounds option \<Rightarrow> int \<Rightarrow> osm_file list \<Rightarrow> run" where
  "main_pbf fl OSMIUM_AVAILABLE bnds max_pois osm_files =
     (if osm_files = [] then Exit1
      else
        (case main_loop fl OSMIUM_AVAILABLE bnds max_pois osm_files [] of
           Inl u \<Rightarrow> Exit1
         | Inr all_pois \<Rightarrow> if all_pois = [] then Exit1 else Written all_pois))"

definition emitted :: "run \<Rightarrow> poi list" where
  \<comment> \<open>the records of a run: none when it exits with status 1\<close>
  "emitted r = (case r of Exit1 \<Rightarrow> [] | Written ps \<Rightarrow> ps)"

section \<open>\<^verbatim>\<open>geofabrik_to_csv_pbf.py\<close>: loading the module and running it\<close>

text \<open>
  The top of the module: \<^verbatim>\<open>import osmium\<close> is tried, and \<open>OSMIUM_AVAILABLE\<close> says
  whether it succeeded. The statement \<^verbatim>\<open>class POIHandler(osmium.SimpleHandler)\<close> that
  follows is not guarded: it evaluates \<^verbatim>\<open>osmium.SimpleHandler\<close>, and when the import has
  failed the name \<^verbatim>\<open>osmium\<close> is unbound and the statement raises \<^verbatim>\<open>NameError\<close>. So
  the module loads only with the library installed, and then the flag is true.
\<close>

definition load_module :: "bool \<Rightarrow> error + bool" where
  "load_module osmium_installed =
     (let OSMIUM_AVAILABLE = osmium_installed
      in if \<not> osmium_installed then Inl NameError else Inr OSMIUM_AVAILABLE)"

text \<open>
  Running the script: the module is loaded, and \<^verbatim>\<open>sys.exit(main())\<close> runs \<^verbatim>\<open>main\<close>
  with the flag the load has set. An exception of the load ends the program before
  \<^verbatim>\<open>main\<close> is called.
\<close>

definition run_script ::
  "float_fn \<Rightarrow> bool \<Rightarrow> bounds option \<Rightarrow> int \<Rightarrow> osm_file list \<Rightarrow> error + run" where
  "run_script fl osmium_installed bnds max_pois osm_files =
     (case load_module osmium_installed of
        Inl e \<Rightarrow> Inl e
      | Inr OSMIUM_AVAILABLE \<Rightarrow> Inr (main_pbf fl OSMIUM_AVAILABLE bnds max_pois osm_files))"

section \<open>\<^verbatim>\<open>geofabrik_to_csv.py\<close>: parser and aggregation\<close>

text \<open>
  The loop of this script's \<^verbatim>\<open>parse_osm_xml\<close>, with its loop variables. The coordinates
  are kept as attribute strings and converted when a record is built. The inner result is
  \<open>Inl\<close> for an exception and otherwise the new \<open>pois\<close> and \<open>poi_count\<close> with a flag
  for \<^verbatim>\<open>break\<close>; the statements after the record is built run when the loop goes on.
\<close>

fun xml_loop_csv ::
  "float_fn \<Rightarrow> int \<Rightarrow> xml_item list \<Rightarrow> string option \<Rightarrow> dict \<Rightarrow> string option \<Rightarrow>
   string option \<Rightarrow> poi list \<Rightarrow> int \<Rightarrow> error + poi list" where
  "xml_loop_csv fl max_pois [] current_element current_tags current_lat current_lon pois
     poi_count = Inr pois"
| "xml_loop_csv fl max_pois (Fails # rest) current_element current_tags current_lat current_lon
     pois poi_count = Inl ParseError"
| "xml_loop_csv fl max_pois (StartEv tag attrs # rest) current_element current_tags current_lat
     current_lon pois poi_count =
     (if tag = ''node'' then
        xml_loop_csv fl max_pois rest (Some ''node'') [] (get attrs ''lat'') (get attrs ''lon'')
          pois poi_count
      else if tag = ''way'' then
        xml_loop_csv fl max_pois rest (Some ''way'') [] current_lat current_lon pois poi_count
      else if tag = ''tag'' \<and> truthy current_element then
        (if truthy (get attrs ''k'') \<and> truthy (get attrs ''v'') then
           xml_loop_csv fl max_pois rest current_element
             (setitem current_tags (get_or attrs ''k'' []) (get_or attrs ''v'' []))
             current_lat current_lon pois poi_count
         else xml_loop_csv fl max_pois rest current_element current_tags current_lat current_lon
                pois poi_count)
      else xml_loop_csv fl max_pois rest current_element current_tags current_lat current_lon
             pois poi_count)"
| "xml_loop_csv fl max_pois (EndEv tag # rest) current_element current_tags current_lat
     current_lon pois poi_count =
     (case
        (if tag = ''node'' \<and> truthy current_lat \<and> truthy current_lon then
           (let name = get_or current_tags ''name'' [] in
            if name \<noteq> [] \<and>
               (truthy (get current_tags ''amenity'') \<or> truthy (get current_tags ''shop'') \<or>
                truthy (get current_tags ''tourism'') \<or> truthy (get current_tags ''healthcare''))
            then
              (let category = categorize_poi current_tags;
                   description =
                     (if get_or current_tags ''amenity'' [] \<noteq> []
                        then get_or current_tags ''amenity'' []
                      else if get_or current_tags ''shop'' [] \<noteq> []
                        then get_or current_tags ''shop'' []
                      else get_or current_tags ''tourism'' []);
                   description =
                     (if truthy (get current_tags ''cuisine'')
                      then description @ '' ('' @ get_or current_tags ''cuisine'' [] @ '')''
                      else description)
               in case fl (case current_lat of None \<Rightarrow> [] | Some s \<Rightarrow> s) of
                    None \<Rightarrow> Inl ValueError
                  | Some lat \<Rightarrow>
                      (case fl (case current_lon of None \<Rightarrow> [] | Some s \<Rightarrow> s) of
                         None \<Rightarrow> Inl ValueError
                       | Some lon \<Rightarrow>
                           Inr (pois @ [\<lparr>name = strip name, category = category,
                                         latitude = lat, longitude = lon,
                                         description = strip description\<rparr>],
                                poi_count + 1, poi_count + 1 \<ge> max_pois)))
            else Inr (pois, poi_count, False))
         else Inr (pois, poi_count, False)) of
        Inl e \<Rightarrow> Inl e
      | Inr (pois, poi_count, stop) \<Rightarrow>
          if stop then Inr pois
          else if tag = ''node'' \<or> tag = ''way'' then
            xml_loop_csv fl max_pois rest None [] None None pois poi_count
          else xml_loop_csv fl max_pois rest current_element current_tags current_lat current_lon
                 pois poi_count)"

text \<open>
  \<^verbatim>\<open>parse_osm_xml\<close> writes its records to \<open>output_csv\<close> and returns their number, and
  \<open>0\<close> without writing a file after an exception or when there is no record. The model
  returns the rows of that file (none when it is not written); the returned count is their
  length.
\<close>

definition parse_osm_xml :: "float_fn \<Rightarrow> xml_item list \<Rightarrow> int \<Rightarrow> poi list" where
  "parse_osm_xml fl osm_file max_pois =
     (case osm_file of
        [] \<Rightarrow> []
      | Fails # rest \<Rightarrow> []
      | StartEv tag attrs # rest \<Rightarrow>
          (case xml_loop_csv fl max_pois rest None [] None None [] 0 of
             Inl e \<Rightarrow> [] | Inr pois \<Rightarrow> pois)
      | EndEv tag # rest \<Rightarrow>
          (case xml_loop_csv fl max_pois rest None [] None None [] 0 of
             Inl e \<Rightarrow> [] | Inr pois \<Rightarrow> pois))"

text \<open>
  The per-file loop of \<^verbatim>\<open>process_geofabrik_data\<close> with its variables \<open>total_pois\<close> and
  \<open>all_pois\<close>; the rows of the temporary file are read back only when the count is positive.
\<close>

fun process_files ::
  "float_fn \<Rightarrow> int \<Rightarrow> xml_item list list \<Rightarrow> int \<Rightarrow> poi list \<Rightarrow> poi list" where
  "process_files fl max_pois [] total_pois all_pois = all_pois"
| "process_files fl max_pois (osm_file # rest) total_pois all_pois =
     (let temp_csv = parse_osm_xml fl osm_file (max_pois - total_pois);
          pois_extracted = int (length temp_csv)
      in if pois_extracted > 0 then
           (if total_pois + pois_extracted \<ge> max_pois then all_pois @ temp_csv
            else process_files fl max_pois rest (total_pois + pois_extracted)
                   (all_pois @ temp_csv))
         else process_files fl max_pois rest total_pois all_pois)"

definition process_geofabrik_data ::
  "float_fn \<Rightarrow> xml_item list list \<Rightarrow> int \<Rightarrow> bool \<times> poi list" where
  \<comment> \<open>the returned flag and the rows written to \<open>output_csv\<close>\<close>
  "process_geofabrik_data fl osm_files max_pois =
     (if osm_files = [] then (False, [])
      else
        (let all_pois = process_files fl max_pois osm_files 0 []
         in if all_pois \<noteq> [] then (True, all_pois) else (False, [])))"

section \<open>Notions used to state the properties\<close>

text \<open>
  The description the builders are compared with: the seven fields in their fixed order,
  each with the text put in front of its value (nothing for the free-text
  \<^verbatim>\<open>description\<close> tag), the fields present joined with \<^verbatim>\<open>"; "\<close>.
\<close>

definition describe_fields :: "(string \<times> string) list" where
  "describe_fields =
     [(''amenity'', ''Amenity: ''), (''shop'', ''Shop: ''), (''tourism'', ''Tourism: ''),
      (''addr:street'', ''Street: ''), (''addr:city'', ''City: ''), (''cuisine'', ''Cuisine: ''),
      (''description'', [])]"

definition present_parts :: "dict \<Rightarrow> (string \<times> string) list \<Rightarrow> string list" where
  "present_parts tags table =
     concat (map (\<lambda>(k, label). case get tags k of None \<Rightarrow> [] | Some v \<Rightarrow> [label @ v]) table)"

definition describe_spec :: "dict \<Rightarrow> string" where
  "describe_spec tags =
     (if present_parts tags describe_fields = [] then ''OSM Point of Interest''
      else join ''; '' (present_parts tags describe_fields))"

text \<open>
  A parse that raises: the exception leaves the loop (or \<^verbatim>\<open>next(context)\<close>, or the
  opening of the file) and reaches the \<^verbatim>\<open>except\<close> clause of the parser, or, for the
  osmium backend, the one of \<^verbatim>\<open>main\<close>.
\<close>

definition xml_parse_raises ::
  "float_fn \<Rightarrow> xml_item list \<Rightarrow> bounds option \<Rightarrow> int option \<Rightarrow> bool" where
  "xml_parse_raises fl file bnds max_pois =
     (case file of
        [] \<Rightarrow> True
      | Fails # rest \<Rightarrow> True
      | StartEv tag attrs # rest \<Rightarrow> isl (xml_loop fl bnds max_pois rest None [] [])
      | EndEv tag # rest \<Rightarrow> isl (xml_loop fl bnds max_pois rest None [] []))"

definition file_raises ::
  "float_fn \<Rightarrow> bool \<Rightarrow> bounds option \<Rightarrow> int option \<Rightarrow> osm_file \<Rightarrow> bool" where
  "file_raises fl OSMIUM_AVAILABLE bnds max_pois f =
     (if endswith (path f) ''.pbf''
      then OSMIUM_AVAILABLE \<and> isl (parse_osm_pbf OSMIUM_AVAILABLE (pbf_items f) bnds max_pois)
      else xml_parse_raises fl (xml_events f) bnds max_pois)"

definition xml_parse_raises_csv :: "float_fn \<Rightarrow> xml_item list \<Rightarrow> int \<Rightarrow> bool" where
  "xml_parse_raises_csv fl osm_file max_pois =
     (case osm_file of
        [] \<Rightarrow> True
      | Fails # rest \<Rightarrow> True
      | StartEv tag attrs # rest \<Rightarrow> isl (xml_loop_csv fl max_pois rest None [] None None [] 0)
      | EndEv tag # rest \<Rightarrow> isl (xml_loop_csv fl max_pois rest None [] None None [] 0))"

text \<open>
  The per-file counts of a run of \<^verbatim>\<open>main\<close>: the numbers printed by
  \<^verbatim>\<open>print(f"... Extracted {len(pois)} POIs from ...")\<close>, one for each file whose
  parse returned to \<^verbatim>\<open>main\<close>, in the order of the files.
\<close>

fun extracted_counts ::
  "float_fn \<Rightarrow> bool \<Rightarrow> bounds option \<Rightarrow> int \<Rightarrow> osm_file list \<Rightarrow> poi list \<Rightarrow> nat list" where
  "extracted_counts fl OSMIUM_AVAILABLE bnds max_pois [] all_pois = []"
| "extracted_counts fl OSMIUM_AVAILABLE bnds max_pois (f # rest) all_pois =
     (if endswith (path f) ''.pbf'' then
        (if \<not> OSMIUM_AVAILABLE then []
         else
           (case parse_osm_pbf OSMIUM_AVAILABLE (pbf_items f) bnds
                   (Some (max_pois - int (length all_pois))) of
              Inl e \<Rightarrow> extracted_counts fl OSMIUM_AVAILABLE bnds max_pois rest all_pois
            | Inr pois \<Rightarrow>
                length pois #
                (if max_pois \<noteq> 0 \<and> max_pois \<le> int (length (all_pois @ pois)) then []
                 else extracted_counts fl OSMIUM_AVAILABLE bnds max_pois rest (all_pois @ pois))))
      else
        (let pois = parse_osm_xml_pbf fl (xml_events f) bnds
                      (Some (max_pois - int (length all_pois)))
         in length pois #
            (if max_pois \<noteq> 0 \<and> max_pois \<le> int (length (all_pois @ pois)) then []
             else extracted_counts fl OSMIUM_AVAILABLE bnds max_pois rest (all_pois @ pois))))"

text \<open>The valid global range of a coordinate pair.\<close>

definition valid_coords :: "pyfloat \<Rightarrow> pyfloat \<Rightarrow> bool" where
  "valid_coords lat lng =
     (fle (Fin (- 90)) lat \<and> fle lat (Fin 90) \<and> fle (Fin (- 180)) lng \<and> fle lng (Fin 180))"

text \<open>
  A node the handler turns into a record when no cap is set and nothing has been
  collected yet: a matching POI of the file.
\<close>

definition is_poi :: "bounds option \<Rightarrow> osm_node \<Rightarrow> bool" where
  "is_poi bnds n =
     (case POIHandler_node (POIHandler_init bnds None) n of
        Inl e \<Rightarrow> False
      | Inr h \<Rightarrow> self_pois h \<noteq> [])"

text \<open>A tag dictionary in which no key has the empty string as its value.\<close>

definition nonempty_values :: "dict \<Rightarrow> bool" where
  "nonempty_values d = (\<forall>k v. map_of d k = Some v \<longrightarrow> v \<noteq> [])"

section \<open>Sample inputs\<close>

definition restaurant_doc :: "xml_item list" where
  \<comment> \<open>\<^verbatim>\<open><osm><node lat="25" lon="85"><tag k="amenity" v="restaurant"/></node></osm>\<close>\<close>
  "restaurant_doc =
     [StartEv ''osm'' [], StartEv ''node'' [(''lat'', ''25''), (''lon'', ''85'')],
      StartEv ''tag'' [(''k'', ''amenity''), (''v'', ''restaurant'')], EndEv ''tag'',
      EndEv ''node'', EndEv ''osm'']"

definition truncated_doc :: "xml_item list" where
  \<comment> \<open>the same document cut off after the node: the tokenizer raises there\<close>
  "truncated_doc =
     [StartEv ''osm'' [], StartEv ''node'' [(''lat'', ''25''), (''lon'', ''85'')],
      StartEv ''tag'' [(''k'', ''amenity''), (''v'', ''restaurant'')], EndEv ''tag'',
      EndEv ''node'', Fails]"

definition cafe_doc :: "xml_item list" where
  "cafe_doc =
     [StartEv ''osm'' [], StartEv ''node'' [(''lat'', ''25''), (''lon'', ''85'')],
      StartEv ''tag'' [(''k'', ''name''), (''v'', ''Cafe X'')], EndEv ''tag'',
      StartEv ''tag'' [(''k'', ''amenity''), (''v'', ''cafe'')], EndEv ''tag'',
      EndEv ''node'', EndEv ''osm'']"

definition truncated_cafe_doc :: "xml_item list" where
  "truncated_cafe_doc =
     [StartEv ''osm'' [], StartEv ''node'' [(''lat'', ''25''), (''lon'', ''85'')],
      StartEv ''tag'' [(''k'', ''name''), (''v'', ''Cafe X'')], EndEv ''tag'',
      StartEv ''tag'' [(''k'', ''amenity''), (''v'', ''cafe'')], EndEv ''tag'',
      EndEv ''node'', Fails]"

definition restaurant_node :: osm_node where
  "restaurant_node =
     \<lparr>location = Some (Fin 25, Fin 85), node_tags = [(''amenity'', ''restaurant'')]\<rparr>"

definition restaurant_poi :: poi where
  "restaurant_poi =
     \<lparr>name = ''Unknown Restaurant'', category = ''restaurant'', latitude = Fin 25,
      longitude = Fin 85, description = ''Amenity: restaurant''\<rparr>"

definition cafe_poi :: poi where
  "cafe_poi =
     \<lparr>name = ''Cafe X'', category = ''restaurant'', latitude = Fin 25, longitude = Fin 85,
      description = ''cafe''\<rparr>"

definition xml_file :: "string \<Rightarrow> xml_item list \<Rightarrow> osm_file" where
  \<comment> \<open>a text file: osmium cannot decode it\<close>
  "xml_file p evs = \<lparr>path = p, xml_events = evs, pbf_items = [Corrupt]\<rparr>"

definition pbf_file :: "string \<Rightarrow> pbf_item list \<Rightarrow> osm_file" where
  \<comment> \<open>a binary file: the XML tokenizer raises on it\<close>
  "pbf_file p items = \<lparr>path = p, xml_events = [Fails], pbf_items = items\<rparr>"

section \<open>The per-file caps\<close>

lemma xml_loop_cap:
  "xml_loop fl bnds (Some m) evs cn ct pois = Inr res \<Longrightarrow> int (length pois) < m \<Longrightarrow>
   int (length res) \<le> m"
proof (induction evs arbitrary: cn ct pois)
  case Nil
  then show ?case by simp
next
  case (Cons ev evs)
  show ?case
  proof (cases ev)
    case (StartEv tag attrs)
    with Cons.prems Cons.IH show ?thesis
      by (auto split: if_splits option.splits)
  next
    case (EndEv tag)
    with Cons.prems Cons.IH show ?thesis
      by (auto simp: Let_def cap_reached_def split: if_splits option.splits prod.splits)
  next
    case Fails
    with Cons.prems show ?thesis by simp
  qed
qed

lemma parse_osm_xml_pbf_cap:
  "0 < m \<Longrightarrow> int (length (parse_osm_xml_pbf fl file bnds (Some m))) \<le> m"
  using xml_loop_cap [of fl bnds m _ None "[]" "[]"]
  by (auto simp: parse_osm_xml_pbf_def split: list.splits xml_item.splits sum.splits)

lemma POIHandler_node_step:
  "POIHandler_node h n = Inr h' \<Longrightarrow>
   self_max_pois h' = self_max_pois h \<and> self_bounds h' = self_bounds h \<and>
   (h' = h \<or> (\<not> cap_reached (self_max_pois h) (length (self_pois h)) \<and>
               length (self_pois h') = Suc (length (self_pois h))))"
  unfolding POIHandler_node_def
  by (auto simp: Let_def split: if_splits option.splits sum.splits prod.splits)

lemma apply_file_cap:
  "self_max_pois h = Some m \<Longrightarrow> 0 < m \<Longrightarrow> int (length (self_pois h)) \<le> m \<Longrightarrow>
   apply_file h items = Inr h' \<Longrightarrow> int (length (self_pois h')) \<le> m"
proof (induction items arbitrary: h)
  case Nil
  then show ?case by simp
next
  case (Cons it items)
  show ?case
  proof (cases it)
    case (Node n)
    with Cons.prems obtain h1
      where h1: "POIHandler_node h n = Inr h1" "apply_file h1 items = Inr h'"
      by (auto split: sum.splits)
    from POIHandler_node_step [OF h1(1)] Cons.prems(1,2,3)
    have "self_max_pois h1 = Some m" "int (length (self_pois h1)) \<le> m"
      by (auto simp: cap_reached_def)
    with Cons.IH [of h1] Cons.prems(2) h1(2) show ?thesis by simp
  next
    case Corrupt
    with Cons.prems show ?thesis by simp
  qed
qed

lemma parse_osm_pbf_cap:
  "0 < m \<Longrightarrow> parse_osm_pbf av file bnds (Some m) = Inr ps \<Longrightarrow> int (length ps) \<le> m"
  using apply_file_cap [of "POIHandler_init bnds (Some m)" m "file"]
  by (auto simp: parse_osm_pbf_def POIHandler_init_def split: if_splits sum.splits)

lemma xml_loop_csv_cap:
  "xml_loop_csv fl m evs ce ct la lo pois cnt = Inr res \<Longrightarrow> int (length pois) = cnt \<Longrightarrow>
   cnt < m \<Longrightarrow> int (length res) \<le> m"
proof (induction evs arbitrary: ce ct la lo pois cnt)
  case Nil
  then show ?case by simp
next
  case (Cons ev evs)
  show ?case
  proof (cases ev)
    case (StartEv tag attrs)
    with Cons.prems Cons.IH show ?thesis
      by (auto split: if_splits)
  next
    case (EndEv tag)
    with Cons.prems Cons.IH show ?thesis
      by (auto simp: Let_def split: if_splits option.splits sum.splits prod.splits)
  next
    case Fails
    with Cons.prems show ?thesis by simp
  qed
qed

lemma parse_osm_xml_cap: "0 < m \<Longrightarrow> int (length (parse_osm_xml fl osm_file m)) \<le> m"
  using xml_loop_csv_cap [of fl m _ None "[]" None None "[]" 0]
  by (auto simp: parse_osm_xml_def split: list.splits xml_item.splits sum.splits)

section \<open>The global cap\<close>

lemma main_loop_cap:
  "int (length all_pois) < K \<Longrightarrow> main_loop fl av bnds K files all_pois = Inr res \<Longrightarrow>
   int (length res) \<le> K"
proof (induction files arbitrary: all_pois)
  case Nil
  then show ?case by simp
next
  case (Cons f files)
  let ?m = "K - int (length all_pois)"
  have m: "0 < ?m" using Cons.prems(1) by simp
  show ?case
  proof (cases "endswith (path f) ''.pbf''")
    case True
    show ?thesis
    proof (cases "parse_osm_pbf av (pbf_items f) bnds (Some ?m)")
      case (Inl e)
      with True Cons.prems Cons.IH [of all_pois] show ?thesis
        by (auto split: if_splits)
    next
      case (Inr ps)
      from parse_osm_pbf_cap [OF m Inr] have "int (length (all_pois @ ps)) \<le> K" by simp
      with True Inr Cons.prems Cons.IH [of "all_pois @ ps"] show ?thesis
        by (auto split: if_splits)
    qed
  next
    case False
    let ?ps = "parse_osm_xml_pbf fl (xml_events f) bnds (Some ?m)"
    from parse_osm_xml_pbf_cap [OF m, of fl "xml_events f" bnds]
    have "int (length (all_pois @ ?ps)) \<le> K" by simp
    with False Cons.prems Cons.IH [of "all_pois @ ?ps"] show ?thesis
      by (auto simp: Let_def split: if_splits)
  qed
qed

lemma main_pbf_cap: "0 < K \<Longrightarrow> int (length (emitted (main_pbf fl av bnds K files))) \<le> K"
  using main_loop_cap [of "[]" K fl av bnds files]
  by (auto simp: main_pbf_def emitted_def split: sum.splits)

lemma process_files_cap:
  "total_pois = int (length all_pois) \<Longrightarrow> total_pois < K \<Longrightarrow>
   int (length (process_files fl K files total_pois all_pois)) \<le> K"
proof (induction files arbitrary: total_pois all_pois)
  case Nil
  then show ?case by simp
next
  case (Cons f files)
  let ?rows = "parse_osm_xml fl f (K - total_pois)"
  have "int (length ?rows) \<le> K - total_pois"
    using Cons.prems(2) by (intro parse_osm_xml_cap) simp
  with Cons.prems Cons.IH [of total_pois all_pois]
    Cons.IH [of "total_pois + int (length ?rows)" "all_pois @ ?rows"]
  show ?case
    by (auto simp: Let_def)
qed

lemma process_geofabrik_data_cap:
  "0 < K \<Longrightarrow> int (length (snd (process_geofabrik_data fl osm_files K))) \<le> K"
  using process_files_cap [of 0 "[]" K fl osm_files]
  by (simp add: process_geofabrik_data_def Let_def)

text \<open>
  C1. For every positive global cap \<open>K\<close>, every list of input files and whatever the
  files hold, the aggregation emits at most \<open>K\<close> records: the records \<^verbatim>\<open>main\<close> of
  \<^verbatim>\<open>geofabrik_to_csv_pbf.py\<close> hands to the writer, and the rows
  \<^verbatim>\<open>process_geofabrik_data\<close> of \<^verbatim>\<open>geofabrik_to_csv.py\<close> writes.
\<close>

theorem aggregate_within_global_cap:
  assumes "0 < K"
  shows "int (length (emitted (main_pbf fl av bnds K osm_files))) \<le> K \<and>
         int (length (snd (process_geofabrik_data fl' docs K))) \<le> K"
  using assms by (simp add: main_pbf_cap process_geofabrik_data_cap)

text \<open>
  C1 at a concrete run: cap 1 and two files with one POI each; one record is emitted, by
  either script.
\<close>

theorem aggregate_within_global_cap_witness:
  "(0::int) < 1 \<and>
   emitted (main_pbf float_int True None 1
     [xml_file ''a.osm'' restaurant_doc, pbf_file ''b.osm.pbf'' [Node restaurant_node]])
     = [restaurant_poi] \<and>
   int (length (emitted (main_pbf float_int True None 1
     [xml_file ''a.osm'' restaurant_doc, pbf_file ''b.osm.pbf'' [Node restaurant_node]]))) \<le> 1 \<and>
   snd (process_geofabrik_data float_int [cafe_doc, cafe_doc] 1) = [cafe_poi] \<and>
   int (length (snd (process_geofabrik_data float_int [cafe_doc, cafe_doc] 1))) \<le> 1"
proof -
  have a: "emitted (main_pbf float_int True None 1
     [xml_file ''a.osm'' restaurant_doc, pbf_file ''b.osm.pbf'' [Node restaurant_node]])
     = [restaurant_poi]"
    by code_simp
  have b: "snd (process_geofabrik_data float_int [cafe_doc, cafe_doc] 1) = [cafe_poi]"
    by code_simp
  have k: "(0::int) < 1" by simp
  from aggregate_within_global_cap [OF k, of float_int True None
      "[xml_file ''a.osm'' restaurant_doc, pbf_file ''b.osm.pbf'' [Node restaurant_node]]"
      float_int "[cafe_doc, cafe_doc]"] a b
  show ?thesis by simp
qed

section \<open>Files whose parse raises\<close>

lemma xml_parse_raises_empty:
  "xml_parse_raises fl file bnds mp \<Longrightarrow> parse_osm_xml_pbf fl file bnds mp = []"
  by (auto simp: xml_parse_raises_def parse_osm_xml_pbf_def
           split: list.splits xml_item.splits sum.splits)

lemma xml_parse_raises_csv_empty:
  "xml_parse_raises_csv fl file m \<Longrightarrow> parse_osm_xml fl file m = []"
  by (auto simp: xml_parse_raises_csv_def parse_osm_xml_def
           split: list.splits xml_item.splits sum.splits)

lemma main_loop_skip:
  "file_raises fl av bnds (Some (K - int (length all_pois))) f \<Longrightarrow>
   K = 0 \<or> int (length all_pois) < K \<Longrightarrow>
   main_loop fl av bnds K (f # rest) all_pois = main_loop fl av bnds K rest all_pois"
  by (auto simp: file_raises_def xml_parse_raises_empty isl_def split: if_splits)

lemma extracted_counts_skip:
  "file_raises fl av bnds (Some (K - int (length all_pois))) f \<Longrightarrow>
   K = 0 \<or> int (length all_pois) < K \<Longrightarrow>
   sum_list (extracted_counts fl av bnds K (f # rest) all_pois) =
   sum_list (extracted_counts fl av bnds K rest all_pois)"
  by (auto simp: file_raises_def xml_parse_raises_empty isl_def split: if_splits)

lemma main_loop_sum:
  "main_loop fl av bnds K files all_pois = Inr res \<Longrightarrow>
   length res = length all_pois + sum_list (extracted_counts fl av bnds K files all_pois)"
proof (induction files arbitrary: all_pois)
  case Nil
  then show ?case by simp
next
  case (Cons f files)
  show ?case
  proof (cases "endswith (path f) ''.pbf''")
    case True
    with Cons.prems have av: av by (auto split: if_splits)
    show ?thesis
    proof (cases "parse_osm_pbf av (pbf_items f) bnds (Some (K - int (length all_pois)))")
      case (Inl e)
      with True av Cons.prems Cons.IH [of all_pois] show ?thesis by simp
    next
      case (Inr ps)
      with True av Cons.prems Cons.IH [of "all_pois @ ps"] show ?thesis
        by (auto split: if_splits)
    qed
  next
    case False
    with Cons.prems
      Cons.IH [of "all_pois @
        parse_osm_xml_pbf fl (xml_events f) bnds (Some (K - int (length all_pois)))"]
    show ?thesis
      by (auto simp: Let_def split: if_splits)
  qed
qed

lemma process_files_skip:
  "xml_parse_raises_csv fl f (K - total_pois) \<Longrightarrow>
   process_files fl K (f # rest) total_pois all_pois =
   process_files fl K rest total_pois all_pois"
  by (simp add: xml_parse_raises_csv_empty)

lemma main_pbf_skip:
  "file_raises fl av bnds (Some K) f \<Longrightarrow> 0 \<le> K \<Longrightarrow>
   main_pbf fl av bnds K (f # rest) = main_pbf fl av bnds K rest"
proof -
  assume r: "file_raises fl av bnds (Some K) f" and k: "0 \<le> K"
  from k have "K = 0 \<or> int (length ([] :: poi list)) < K" by auto
  with r have "main_loop fl av bnds K (f # rest) [] = main_loop fl av bnds K rest []"
    by (intro main_loop_skip) simp_all
  then show ?thesis
    by (cases rest) (simp_all add: main_pbf_def del: main_loop.simps, simp)
qed

text \<open>
  C5. At any iteration of the per-file loop of \<^verbatim>\<open>main\<close> (the cap \<open>K\<close> is not reached
  by the records so far, as at every entry of the loop), a file whose parse raises leaves
  \<open>all_pois\<close> as it was and the loop goes on with the remaining files: the run is the
  run without that file, and the file adds nothing to the per-file counts. The XML parser
  returns no record when it raises, whatever it had collected. The number of records at
  the end is the number at the start plus the sum of the per-file counts. In
  \<^verbatim>\<open>geofabrik_to_csv.py\<close> a file whose parse raises is skipped in the same way.
\<close>

theorem failed_file_contributes_nothing:
  assumes "K = 0 \<or> int (length all_pois) < K"
  shows "(file_raises fl av bnds (Some (K - int (length all_pois))) f \<longrightarrow>
            main_loop fl av bnds K (f # rest) all_pois = main_loop fl av bnds K rest all_pois \<and>
            sum_list (extracted_counts fl av bnds K (f # rest) all_pois) =
            sum_list (extracted_counts fl av bnds K rest all_pois)) \<and>
         (file_raises fl av bnds (Some K) f \<and> all_pois = [] \<longrightarrow>
            main_pbf fl av bnds K (f # rest) = main_pbf fl av bnds K rest) \<and>
         (xml_parse_raises fl evs bnds mp \<longrightarrow> parse_osm_xml_pbf fl evs bnds mp = []) \<and>
         (main_loop fl av bnds K files all_pois = Inr res \<longrightarrow>
            length res =
            length all_pois + sum_list (extracted_counts fl av bnds K files all_pois)) \<and>
         (xml_parse_raises_csv fl doc (K - total_pois) \<longrightarrow>
            parse_osm_xml fl doc (K - total_pois) = [] \<and>
            process_files fl K (doc # docs) total_pois rows =
            process_files fl K docs total_pois rows)"
proof -
  have "main_pbf fl av bnds K (f # rest) = main_pbf fl av bnds K rest"
    if "file_raises fl av bnds (Some K) f" and "all_pois = []"
    using that assms by (intro main_pbf_skip) auto
  with assms show ?thesis
    by (simp add: main_loop_skip extracted_counts_skip xml_parse_raises_empty main_loop_sum
          process_files_skip xml_parse_raises_csv_empty del: main_loop.simps
          extracted_counts.simps process_files.simps)
qed

text \<open>
  C5 at a concrete run with cap 10: the first file holds one POI and then breaks off, the
  second (binary) file cannot be decoded, the third holds one POI. Only the third file's
  record is emitted.
\<close>

theorem failed_file_contributes_nothing_witness:
  "file_raises float_int True None (Some 10) (xml_file ''a.osm'' truncated_doc) \<and>
   file_raises float_int True None (Some 10) (pbf_file ''b.osm.pbf'' [Node restaurant_node, Corrupt]) \<and>
   main_loop float_int True None 10
     [xml_file ''a.osm'' truncated_doc, pbf_file ''b.osm.pbf'' [Node restaurant_node, Corrupt],
      xml_file ''c.osm'' restaurant_doc] [] = Inr [restaurant_poi] \<and>
   xml_parse_raises_csv float_int truncated_cafe_doc 10 \<and>
   process_files float_int 10 [truncated_cafe_doc, cafe_doc] 0 [] = [cafe_poi]"
proof -
  let ?a = "xml_file ''a.osm'' truncated_doc"
  let ?b = "pbf_file ''b.osm.pbf'' [Node restaurant_node, Corrupt]"
  let ?c = "xml_file ''c.osm'' restaurant_doc"
  have inv: "(10::int) = 0 \<or> int (length ([] :: poi list)) < 10" by simp
  have ra: "file_raises float_int True None (Some 10) ?a" by code_simp
  have rb: "file_raises float_int True None (Some 10) ?b" by code_simp
  have rc: "xml_parse_raises_csv float_int truncated_cafe_doc 10" by code_simp
  have last: "main_loop float_int True None 10 [?c] [] = Inr [restaurant_poi]" by code_simp
  have last_csv: "process_files float_int 10 [cafe_doc] 0 [] = [cafe_poi]" by code_simp
  from failed_file_contributes_nothing [OF inv, where fl = float_int and av = True and bnds = None
      and f = ?a and rest = "[?b, ?c]"] ra
  have s1: "main_loop float_int True None 10 [?a, ?b, ?c] [] =
            main_loop float_int True None 10 [?b, ?c] []"
    by (simp del: main_loop.simps extracted_counts.simps)
  from failed_file_contributes_nothing [OF inv, where fl = float_int and av = True and bnds = None
      and f = ?b and rest = "[?c]"] rb
  have s2: "main_loop float_int True None 10 [?b, ?c] [] =
            main_loop float_int True None 10 [?c] []"
    by (simp del: main_loop.simps extracted_counts.simps)
  from failed_file_contributes_nothing [OF inv, where fl = float_int and doc = truncated_cafe_doc
      and total_pois = 0 and docs = "[cafe_doc]" and rows = "[]"] rc
  have s3: "process_files float_int 10 [truncated_cafe_doc, cafe_doc] 0 [] =
            process_files float_int 10 [cafe_doc] 0 []"
    by (simp del: process_files.simps)
  from ra rb rc s1 s2 s3 last last_csv show ?thesis
    by (simp del: main_loop.simps process_files.simps)
qed

section \<open>The decoder that is not installed\<close>

lemma load_module_flag: "load_module osmium_installed = Inr av \<Longrightarrow> osmium_installed \<and> av"
  by (auto simp: load_module_def split: if_splits)

lemma run_script_without_osmium: "run_script fl False bnds K osm_files = Inl NameError"
  by (simp add: run_script_def load_module_def)

lemma run_script_with_osmium:
  "run_script fl True bnds K osm_files = Inr (main_pbf fl True bnds K osm_files)"
  by (simp add: run_script_def load_module_def)



section \<open>The cap of the osmium handler\<close>

lemma cap_reached_off: "mp = None \<or> mp = Some 0 \<Longrightarrow> cap_reached mp k = False"
  by (auto simp: cap_reached_def)

lemma node_at_cap:
  "self_max_pois h = Some m \<Longrightarrow> 0 < m \<Longrightarrow> m \<le> int (length (self_pois h)) \<Longrightarrow>
   POIHandler_node h n = Inr h"
  by (simp add: POIHandler_node_def cap_reached_def)

lemma apply_file_at_cap:
  "self_max_pois h = Some m \<Longrightarrow> 0 < m \<Longrightarrow> m \<le> int (length (self_pois h)) \<Longrightarrow>
   apply_file h (map Node ns) = Inr h"
  by (induction ns) (simp_all add: node_at_cap)

lemma apply_file_reads_on:
  "self_max_pois h = Some m \<Longrightarrow> 0 < m \<Longrightarrow> m \<le> int (length (self_pois h)) \<Longrightarrow>
   apply_file h (map Node ns @ Corrupt # rest) = Inl DecodeError"
  by (induction ns) (simp_all add: node_at_cap)

text \<open>
  C9, as the claim states it, fails: with cap 1 and a file made of one restaurant node
  followed by a block the decoder cannot read, the decode goes on after the cap is
  reached, meets the bad block and raises; had it stopped at the cap, the file would have
  given its one record, as it does without the bad block, and as the XML parser, which
  leaves its loop at the cap, does on a document that breaks off after the first POI.
\<close>

theorem decode_continues_after_cap:
  "parse_osm_pbf True [Node restaurant_node, Corrupt] None (Some 1) = Inl DecodeError \<and>
   parse_osm_pbf True [Node restaurant_node] None (Some 1) = Inr [restaurant_poi] \<and>
   parse_osm_xml_pbf float_int truncated_doc None (Some 1) = [restaurant_poi]"
  by code_simp

text \<open>
  C9, amended. Once the handler holds \<open>max_pois\<close> records (\<open>max_pois\<close> positive), every
  further call of \<^verbatim>\<open>node\<close> returns at once and leaves the handler as it is, so the
  nodes that follow add no record; the decode itself is not stopped: \<^verbatim>\<open>apply_file\<close>
  still reads the rest of the file, and a failure of the decoder there still raises.
\<close>

theorem node_ignored_after_cap:
  assumes "self_max_pois h = Some m" and "0 < m" and "m \<le> int (length (self_pois h))"
  shows "POIHandler_node h n = Inr h \<and>
         apply_file h (map Node ns) = Inr h \<and>
         apply_file h (map Node ns @ Corrupt # rest) = Inl DecodeError"
  using assms by (simp add: node_at_cap apply_file_at_cap apply_file_reads_on)

text \<open>C9, amended, at a handler with cap 1 that holds one record.\<close>

theorem node_ignored_after_cap_witness:
  "self_max_pois (POIHandler_init None (Some 1)\<lparr>self_pois := [restaurant_poi]\<rparr>) = Some 1 \<and>
   (0::int) < 1 \<and>
   POIHandler_node (POIHandler_init None (Some 1)\<lparr>self_pois := [restaurant_poi]\<rparr>)
     restaurant_node = Inr (POIHandler_init None (Some 1)\<lparr>self_pois := [restaurant_poi]\<rparr>) \<and>
   apply_file (POIHandler_init None (Some 1)\<lparr>self_pois := [restaurant_poi]\<rparr>)
     [Node restaurant_node, Corrupt] = Inl DecodeError"
proof -
  let ?h = "POIHandler_init None (Some 1)\<lparr>self_pois := [restaurant_poi]\<rparr>"
  have a: "self_max_pois ?h = Some 1" by (simp add: POIHandler_init_def)
  have b: "(0::int) < 1" by simp
  have c: "1 \<le> int (length (self_pois ?h))" by simp
  from node_ignored_after_cap [OF a b c, of restaurant_node "[restaurant_node]" "[]"] a
  show ?thesis by (simp del: apply_file.simps)
qed

lemma node_no_cap:
  "mp = None \<or> mp = Some 0 \<Longrightarrow>
   POIHandler_node
     \<lparr>self_pois = ps, self_bounds = b, self_max_pois = mp, self_processed_count = c\<rparr> n =
   map_sum id
     (\<lambda>h1. \<lparr>self_pois = ps @ self_pois h1, self_bounds = b, self_max_pois = mp,
            self_processed_count = c\<rparr>)
     (POIHandler_node (POIHandler_init b None) n)"
  unfolding POIHandler_node_def POIHandler_init_def
  by (auto simp: cap_reached_off Let_def split: option.splits sum.splits)

lemma apply_file_no_cap:
  "mp = None \<or> mp = Some 0 \<Longrightarrow>
   map_sum id self_pois
     (apply_file
        \<lparr>self_pois = ps, self_bounds = b, self_max_pois = mp, self_processed_count = c\<rparr> items) =
   map_sum id self_pois
     (apply_file
        \<lparr>self_pois = ps, self_bounds = b, self_max_pois = None, self_processed_count = c\<rparr>
        items)"
proof (induction items arbitrary: ps)
  case Nil
  then show ?case by simp
next
  case (Cons it items)
  show ?case
  proof (cases it)
    case (Node n)
    show ?thesis
    proof (cases "POIHandler_node (POIHandler_init b None) n")
      case (Inl e)
      with Node Cons.prems show ?thesis
        by (simp add: node_no_cap)
    next
      case (Inr h1)
      with Node Cons.prems Cons.IH [of "ps @ self_pois h1"] show ?thesis
        by (simp add: node_no_cap)
    qed
  next
    case Corrupt
    then show ?thesis by simp
  qed
qed

lemma parse_osm_pbf_no_cap:
  "mp = None \<or> mp = Some 0 \<Longrightarrow>
   parse_osm_pbf av items bnds mp = parse_osm_pbf av items bnds None"
  using apply_file_no_cap [of mp "[]" bnds 0 items]
  by (auto simp: parse_osm_pbf_def POIHandler_init_def split: sum.splits)

lemma is_poi_one:
  "is_poi b n \<Longrightarrow> \<exists>h1. POIHandler_node (POIHandler_init b None) n = Inr h1 \<and>
                        length (self_pois h1) = 1"
proof -
  assume "is_poi b n"
  then obtain h1 where h1: "POIHandler_node (POIHandler_init b None) n = Inr h1"
      "self_pois h1 \<noteq> []"
    by (auto simp: is_poi_def split: sum.splits)
  from POIHandler_node_step [OF h1(1)]
  have "h1 = POIHandler_init b None \<or>
        length (self_pois h1) = Suc (length (self_pois (POIHandler_init b None)))"
    by blast
  moreover have "self_pois (POIHandler_init b None) = []"
    by (simp add: POIHandler_init_def)
  ultimately have "length (self_pois h1) = 1"
    using h1(2) by auto
  with h1(1) show ?thesis by blast
qed

lemma apply_file_all_pois:
  "mp = None \<or> mp = Some 0 \<Longrightarrow> list_all (is_poi b) ns \<Longrightarrow>
   \<exists>h'. apply_file
          \<lparr>self_pois = ps, self_bounds = b, self_max_pois = mp, self_processed_count = c\<rparr>
          (map Node ns) = Inr h' \<and>
        length (self_pois h') = length ps + length ns"
proof (induction ns arbitrary: ps)
  case Nil
  then show ?case by simp
next
  case (Cons n ns)
  from Cons.prems(2) is_poi_one [of b n] obtain h1
    where h1: "POIHandler_node (POIHandler_init b None) n = Inr h1"
      "length (self_pois h1) = 1"
    by auto
  from Cons.prems(2) have "list_all (is_poi b) ns" by simp
  from Cons.IH [OF Cons.prems(1) this, of "ps @ self_pois h1"] h1 Cons.prems(1)
  show ?case by (simp add: node_no_cap)
qed

text \<open>
  C10. A handler built with \<open>max_pois\<close> equal to \<open>0\<close> or \<open>None\<close> never finds its cap
  reached: the file gives what it gives without a cap, and a file of \<open>k\<close> nodes that are
  all matching POIs gives \<open>k\<close> records, for every \<open>k\<close>. So a caller that passes a
  remaining budget of \<open>0\<close> receives every matching POI of the file.
\<close>

theorem zero_cap_is_unlimited:
  assumes "max_pois = None \<or> max_pois = Some 0"
  shows "\<not> cap_reached max_pois k \<and>
         parse_osm_pbf av items bnds max_pois = parse_osm_pbf av items bnds None \<and>
         (list_all (is_poi bnds) ns \<longrightarrow>
            (\<exists>ps. parse_osm_pbf True (map Node ns) bnds max_pois = Inr ps \<and>
                  length ps = length ns))"
proof -
  have "\<exists>ps. parse_osm_pbf True (map Node ns) bnds max_pois = Inr ps \<and> length ps = length ns"
    if "list_all (is_poi bnds) ns"
    using apply_file_all_pois [OF assms that, of "[]" 0]
    by (auto simp: parse_osm_pbf_def POIHandler_init_def)
  moreover have "\<not> cap_reached max_pois k"
    using assms by (simp add: cap_reached_off)
  moreover have "parse_osm_pbf av items bnds max_pois = parse_osm_pbf av items bnds None"
    using assms by (rule parse_osm_pbf_no_cap)
  ultimately show ?thesis by blast
qed

text \<open>C10 at a file of three restaurant nodes and a budget of \<open>0\<close>: three records.\<close>

theorem zero_cap_is_unlimited_witness:
  "(Some (0::int) = None \<or> Some (0::int) = Some 0) \<and>
   list_all (is_poi None) [restaurant_node, restaurant_node, restaurant_node] \<and>
   parse_osm_pbf True [Node restaurant_node, Node restaurant_node, Node restaurant_node] None
     (Some 0) = Inr [restaurant_poi, restaurant_poi, restaurant_poi] \<and>
   parse_osm_pbf True [Node restaurant_node, Node restaurant_node, Node restaurant_node] None
     (Some 0) =
   parse_osm_pbf True [Node restaurant_node, Node restaurant_node, Node restaurant_node] None
     None"
proof -
  have z: "Some (0::int) = None \<or> Some (0::int) = Some 0" by simp
  have p: "list_all (is_poi None) [restaurant_node, restaurant_node, restaurant_node]"
    by code_simp
  have v: "parse_osm_pbf True [Node restaurant_node, Node restaurant_node, Node restaurant_node]
      None None = Inr [restaurant_poi, restaurant_poi, restaurant_poi]"
    by code_simp
  from zero_cap_is_unlimited [OF z, of 3 True
      "[Node restaurant_node, Node restaurant_node, Node restaurant_node]" None
      "[restaurant_node, restaurant_node, restaurant_node]"] p v
  show ?thesis by (simp del: apply_file.simps)
qed

section \<open>The categorizers\<close>

text \<open>
  C2, as the claim states it, fails: on \<^verbatim>\<open>{amenity: bank}\<close> the services rule of the
  ten-rule table matches and the two categorizers of \<^verbatim>\<open>geofabrik_to_csv_pbf.py\<close> return
  \<^verbatim>\<open>services\<close>, while \<^verbatim>\<open>categorize_poi\<close> of \<^verbatim>\<open>geofabrik_to_csv.py\<close> returns
  \<^verbatim>\<open>bank\<close>; on \<^verbatim>\<open>{amenity: school, shop: books}\<close> the order of the rules differs as
  well (\<^verbatim>\<open>shopping\<close> against \<^verbatim>\<open>education\<close>).
\<close>

theorem csv_categorizer_differs:
  "categorize_poi_xml [(''amenity'', ''bank'')] = Some ''services'' \<and>
   POIHandler_categorize_poi [(''amenity'', ''bank'')] = Some ''services'' \<and>
   categorize_poi [(''amenity'', ''bank'')] = ''bank'' \<and>
   Some (categorize_poi [(''amenity'', ''bank'')]) \<noteq> categorize_poi_xml [(''amenity'', ''bank'')] \<and>
   categorize_poi_xml [(''amenity'', ''school''), (''shop'', ''books'')] = Some ''shopping'' \<and>
   categorize_poi [(''amenity'', ''school''), (''shop'', ''books'')] = ''education''"
  by code_simp

text \<open>
  C2, amended. For every tag set, the two categorizers of the binary/PBF converter script
  (\<^verbatim>\<open>categorize_poi_xml\<close>, used by its XML parser, and \<^verbatim>\<open>POIHandler.categorize_poi\<close>,
  used by its osmium handler) return the same result: the two parse representations of
  that script apply one ordered rule table. (\<^verbatim>\<open>categorize_poi\<close> of
  \<^verbatim>\<open>geofabrik_to_csv.py\<close> has a table of its own.)
\<close>

theorem pbf_categorizers_agree:
  "categorize_poi_xml tags = POIHandler_categorize_poi tags"
  by (simp add: categorize_poi_xml_def POIHandler_categorize_poi_def)

text \<open>C2, amended, at \<^verbatim>\<open>{shop: bakery, amenity: atm}\<close>, where two rules match.\<close>

theorem pbf_categorizers_agree_witness:
  "categorize_poi_xml [(''shop'', ''bakery''), (''amenity'', ''atm'')] = Some ''shopping'' \<and>
   POIHandler_categorize_poi [(''shop'', ''bakery''), (''amenity'', ''atm'')] = Some ''shopping''"
proof -
  have "categorize_poi_xml [(''shop'', ''bakery''), (''amenity'', ''atm'')] = Some ''shopping''"
    by code_simp
  with pbf_categorizers_agree [of "[(''shop'', ''bakery''), (''amenity'', ''atm'')]"]
  show ?thesis by simp
qed

text \<open>
  C3. The claim asks for \<^verbatim>\<open>gas_station\<close> on \<^verbatim>\<open>{amenity: fuel}\<close>, and so do the tests
  of the script (\<^verbatim>\<open>test_categorize_poi_gas_station\<close>, \<^verbatim>\<open>test_category_consistency\<close>).
  The code returns \<^verbatim>\<open>transportation\<close>: the transportation rule lists \<^verbatim>\<open>fuel\<close> and
  is tested before the gas-station rule.
\<close>

theorem fuel_is_transportation:
  "categorize_poi_xml [(''amenity'', ''fuel'')] = Some ''transportation'' \<and>
   POIHandler_categorize_poi [(''amenity'', ''fuel'')] = Some ''transportation'' \<and>
   categorize_poi_xml [(''amenity'', ''fuel''), (''name'', ''Test Gas Station'')]
     = Some ''transportation''"
  by code_simp

text \<open>C3: on that tag set the result is not \<^verbatim>\<open>gas_station\<close>.\<close>

theorem fuel_is_transportation_witness:
  "categorize_poi_xml [(''amenity'', ''fuel'')] \<noteq> Some ''gas_station'' \<and>
   POIHandler_categorize_poi [(''amenity'', ''fuel'')] \<noteq> Some ''gas_station''"
  using fuel_is_transportation by simp

section \<open>Coordinates and names of the records\<close>

lemma POIHandler_node_valid:
  "POIHandler_node h n = Inr h' \<Longrightarrow>
   list_all (\<lambda>p. valid_coords (latitude p) (longitude p)) (self_pois h) \<Longrightarrow>
   list_all (\<lambda>p. valid_coords (latitude p) (longitude p)) (self_pois h')"
  unfolding POIHandler_node_def valid_coords_def
  by (auto simp: Let_def split: if_splits option.splits sum.splits prod.splits)

lemma apply_file_valid:
  "apply_file h items = Inr h' \<Longrightarrow>
   list_all (\<lambda>p. valid_coords (latitude p) (longitude p)) (self_pois h) \<Longrightarrow>
   list_all (\<lambda>p. valid_coords (latitude p) (longitude p)) (self_pois h')"
proof (induction items arbitrary: h)
  case Nil
  then show ?case by simp
next
  case (Cons it items)
  show ?case
  proof (cases it)
    case (Node n)
    with Cons.prems obtain h1
      where h1: "POIHandler_node h n = Inr h1" "apply_file h1 items = Inr h'"
      by (auto split: sum.splits)
    from POIHandler_node_valid [OF h1(1) Cons.prems(2)] Cons.IH [OF h1(2)]
    show ?thesis by simp
  next
    case Corrupt
    with Cons.prems show ?thesis by simp
  qed
qed

lemma parse_osm_pbf_valid:
  "parse_osm_pbf av items bnds mp = Inr ps \<Longrightarrow>
   list_all (\<lambda>p. valid_coords (latitude p) (longitude p)) ps"
  using apply_file_valid [of "POIHandler_init bnds mp" items]
  by (auto simp: parse_osm_pbf_def POIHandler_init_def split: if_splits sum.splits)

lemma nonempty_values_setitem:
  "nonempty_values d \<Longrightarrow> v \<noteq> [] \<Longrightarrow> nonempty_values (setitem d k v)"
  by (simp add: nonempty_values_def setitem_def update_conv')

lemma nonempty_values_name:
  "nonempty_values d \<Longrightarrow> dflt \<noteq> [] \<Longrightarrow> get_or d k dflt \<noteq> []"
  by (auto simp: nonempty_values_def get_or_def split: option.splits)

lemma truthy_get_or: "truthy (get d k) \<Longrightarrow> get_or d k [] \<noteq> []"
  by (auto simp: truthy_def get_def get_or_def split: option.splits)

lemma xml_loop_named:
  "xml_loop fl bnds mp evs cn ct pois = Inr res \<Longrightarrow> nonempty_values ct \<Longrightarrow>
   list_all (\<lambda>p. name p \<noteq> []) pois \<Longrightarrow> list_all (\<lambda>p. name p \<noteq> []) res"
proof (induction evs arbitrary: cn ct pois)
  case Nil
  then show ?case by simp
next
  case (Cons ev evs)
  have e: "nonempty_values []" by (simp add: nonempty_values_def)
  show ?case
  proof (cases ev)
    case (StartEv tag attrs)
    with Cons.prems Cons.IH e show ?thesis
      by (auto simp: nonempty_values_setitem truthy_get_or split: if_splits option.splits)
  next
    case (EndEv tag)
    with Cons.prems Cons.IH e show ?thesis
      by (auto simp: Let_def nonempty_values_name split: if_splits option.splits prod.splits)
  next
    case Fails
    with Cons.prems show ?thesis by simp
  qed
qed

lemma parse_osm_xml_pbf_named:
  "list_all (\<lambda>p. name p \<noteq> []) (parse_osm_xml_pbf fl file bnds mp)"
  using xml_loop_named [of fl bnds mp _ None "[]" "[]"]
  by (auto simp: parse_osm_xml_pbf_def nonempty_values_def split: list.splits xml_item.splits sum.splits)

text \<open>
  C4. The osmium handler checks the global range before it builds a record, so every
  record it returns lies in the range (\<open>parse_osm_pbf_valid\<close>); the XML parsers of both
  scripts do not. For the document
  \<^verbatim>\<open><osm><node lat="95" lon="0"><tag k="amenity" v="restaurant"/></node></osm>\<close>, read
  without a bounding box, the XML parser of \<^verbatim>\<open>geofabrik_to_csv_pbf.py\<close> emits a record
  with latitude 95, and so does the parser of \<^verbatim>\<open>geofabrik_to_csv.py\<close> when the node
  has a name.
\<close>

theorem xml_record_out_of_range:
  "parse_osm_xml_pbf float_int
     [StartEv ''osm'' [], StartEv ''node'' [(''lat'', ''95''), (''lon'', ''0'')],
      StartEv ''tag'' [(''k'', ''amenity''), (''v'', ''restaurant'')], EndEv ''tag'',
      EndEv ''node'', EndEv ''osm'']
     None (Some 1000) =
     [\<lparr>name = ''Unknown Restaurant'', category = ''restaurant'', latitude = Fin 95,
       longitude = Fin 0, description = ''Amenity: restaurant''\<rparr>] \<and>
   parse_osm_xml float_int
     [StartEv ''osm'' [], StartEv ''node'' [(''lat'', ''95''), (''lon'', ''0'')],
      StartEv ''tag'' [(''k'', ''name''), (''v'', ''North'')], EndEv ''tag'',
      StartEv ''tag'' [(''k'', ''amenity''), (''v'', ''restaurant'')], EndEv ''tag'',
      EndEv ''node'', EndEv ''osm'']
     1000 =
     [\<lparr>name = ''North'', category = ''restaurant'', latitude = Fin 95, longitude = Fin 0,
       description = ''restaurant''\<rparr>] \<and>
   \<not> valid_coords (Fin 95) (Fin 0) \<and>
   parse_osm_pbf True
     [Node \<lparr>location = Some (Fin 95, Fin 0), node_tags = [(''amenity'', ''restaurant'')]\<rparr>]
     None (Some 1000) = Inr []"
  by code_simp

text \<open>C4: the one record of that run lies outside the valid range.\<close>

theorem xml_record_out_of_range_witness:
  "\<not> list_all (\<lambda>p. valid_coords (latitude p) (longitude p))
       (parse_osm_xml_pbf float_int
          [StartEv ''osm'' [], StartEv ''node'' [(''lat'', ''95''), (''lon'', ''0'')],
           StartEv ''tag'' [(''k'', ''amenity''), (''v'', ''restaurant'')], EndEv ''tag'',
           EndEv ''node'', EndEv ''osm'']
          None (Some 1000))"
  using xml_record_out_of_range by simp

text \<open>
  C8. The code tests the name before it builds a record, but a record with an empty name
  still comes out. In \<^verbatim>\<open>geofabrik_to_csv.py\<close> the name is tested before
  \<^verbatim>\<open>strip()\<close>: the node
  \<^verbatim>\<open><node lat="25" lon="85"><tag k="name" v=" "/><tag k="amenity" v="cafe"/></node>\<close>
  gives a record whose name is empty. In the osmium handler the fallback label is used
  only when the \<^verbatim>\<open>name\<close> tag is absent: a node with the tags \<^verbatim>\<open>amenity=cafe\<close> and
  \<^verbatim>\<open>name=\<close> (empty value) gives a record whose name is empty, where the XML parser of
  the same script, which drops empty values, falls back to the label and never returns
  an empty name (\<open>parse_osm_xml_pbf_named\<close>).
\<close>

theorem empty_name_emitted:
  "parse_osm_xml float_int
     [StartEv ''osm'' [], StartEv ''node'' [(''lat'', ''25''), (''lon'', ''85'')],
      StartEv ''tag'' [(''k'', ''name''), (''v'', '' '')], EndEv ''tag'',
      StartEv ''tag'' [(''k'', ''amenity''), (''v'', ''cafe'')], EndEv ''tag'',
      EndEv ''node'', EndEv ''osm'']
     1000 =
     [\<lparr>name = [], category = ''restaurant'', latitude = Fin 25, longitude = Fin 85,
       description = ''cafe''\<rparr>] \<and>
   parse_osm_pbf True
     [Node \<lparr>location = Some (Fin 25, Fin 85),
            node_tags = [(''amenity'', ''cafe''), (''name'', [])]\<rparr>]
     None (Some 1000) =
     Inr [\<lparr>name = [], category = ''restaurant'', latitude = Fin 25, longitude = Fin 85,
           description = ''Amenity: cafe''\<rparr>] \<and>
   parse_osm_xml_pbf float_int
     [StartEv ''osm'' [], StartEv ''node'' [(''lat'', ''25''), (''lon'', ''85'')],
      StartEv ''tag'' [(''k'', ''amenity''), (''v'', ''cafe'')], EndEv ''tag'',
      StartEv ''tag'' [(''k'', ''name''), (''v'', [])], EndEv ''tag'',
      EndEv ''node'', EndEv ''osm'']
     None (Some 1000) =
     [\<lparr>name = ''Unknown Restaurant'', category = ''restaurant'', latitude = Fin 25,
       longitude = Fin 85, description = ''Amenity: cafe''\<rparr>]"
  by code_simp

text \<open>C8: the name of the one record of the first run is the empty string.\<close>

theorem empty_name_emitted_witness:
  "map name
     (parse_osm_xml float_int
        [StartEv ''osm'' [], StartEv ''node'' [(''lat'', ''25''), (''lon'', ''85'')],
         StartEv ''tag'' [(''k'', ''name''), (''v'', '' '')], EndEv ''tag'',
         StartEv ''tag'' [(''k'', ''amenity''), (''v'', ''cafe'')], EndEv ''tag'',
         EndEv ''node'', EndEv ''osm'']
        1000) = [[]]"
  using empty_name_emitted by simp

section \<open>The description builders\<close>

lemma opt_append:
  "(case x of None \<Rightarrow> ps | Some v \<Rightarrow> ps @ [f v]) =
   ps @ (case x of None \<Rightarrow> [] | Some v \<Rightarrow> [f v])"
  by (cases x) simp_all

lemma opt_nil:
  "(case x of None \<Rightarrow> [] | Some v \<Rightarrow> [[] @ v]) = (case x of None \<Rightarrow> [] | Some v \<Rightarrow> [v])"
  by (cases x) simp_all

lemma get_description_xml_spec: "get_description_xml tags = describe_spec tags"
  unfolding get_description_xml_def describe_spec_def present_parts_def describe_fields_def
    Let_def
  by (simp add: opt_append opt_nil)

lemma POIHandler_get_description_xml:
  "POIHandler_get_description tags = get_description_xml tags"
  by (simp add: get_description_xml_def POIHandler_get_description_def)

lemma describe_spec_none:
  "\<forall>k \<in> set (map fst describe_fields). get tags k = None \<Longrightarrow>
   describe_spec tags = ''OSM Point of Interest''"
  by (simp add: describe_spec_def present_parts_def describe_fields_def)

text \<open>
  C7, as the claim states it, fails: the \<^verbatim>\<open>description\<close> tag is not rendered as
  \<^verbatim>\<open>"Label: value"\<close>. On the tag set \<^verbatim>\<open>{description: x}\<close> the result is \<^verbatim>\<open>x\<close>
  alone; it does not end with \<^verbatim>\<open>": x"\<close>, as every rendering \<^verbatim>\<open>"Label: x"\<close> would.
\<close>

theorem description_tag_unlabelled:
  "get_description_xml [(''description'', ''x'')] = ''x'' \<and>
   \<not> endswith (get_description_xml [(''description'', ''x'')]) '': x'' \<and>
   POIHandler_get_description [(''description'', ''x'')] = ''x''"
  by code_simp

text \<open>
  C7, amended. For every tag set, both description builders return the parts of the
  fields present among \<^verbatim>\<open>amenity\<close>, \<^verbatim>\<open>shop\<close>, \<^verbatim>\<open>tourism\<close>, \<^verbatim>\<open>addr:street\<close>,
  \<^verbatim>\<open>addr:city\<close>, \<^verbatim>\<open>cuisine\<close> and \<^verbatim>\<open>description\<close>, in that order, joined with
  \<^verbatim>\<open>"; "\<close>; the first six are rendered as \<^verbatim>\<open>"Label: value"\<close> with the labels Amenity,
  Shop, Tourism, Street, City and Cuisine, and the \<^verbatim>\<open>description\<close> tag as its bare
  value. When none of the seven is present (the empty tag set among others), the result
  is \<^verbatim>\<open>"OSM Point of Interest"\<close>.
\<close>

theorem description_fields_in_order:
  "get_description_xml tags = describe_spec tags \<and>
   POIHandler_get_description tags = describe_spec tags \<and>
   ((\<forall>k \<in> set (map fst describe_fields). get tags k = None) \<longrightarrow>
      get_description_xml tags = ''OSM Point of Interest'') \<and>
   get_description_xml [] = ''OSM Point of Interest''"
proof -
  have "get_description_xml [] = ''OSM Point of Interest''"
    by (simp add: get_description_xml_spec describe_spec_none get_def)
  then show ?thesis
    by (simp add: get_description_xml_spec POIHandler_get_description_xml describe_spec_none)
qed

text \<open>
  C7, amended, at a tag set with all seven fields and at one with none of them.
\<close>

theorem description_fields_in_order_witness:
  "get_description_xml
     [(''description'', ''open late''), (''cuisine'', ''italian''), (''addr:city'', ''Patna''),
      (''addr:street'', ''Main Street''), (''tourism'', ''attraction''), (''shop'', ''deli''),
      (''amenity'', ''restaurant''), (''name'', ''Cafe X'')] =
     ''Amenity: restaurant; Shop: deli; Tourism: attraction; Street: Main Street; City: Patna; Cuisine: italian; open late'' \<and>
   get_description_xml [(''name'', ''Cafe X'')] = ''OSM Point of Interest''"
proof -
  let ?t = "[(''description'', ''open late''), (''cuisine'', ''italian''),
      (''addr:city'', ''Patna''), (''addr:street'', ''Main Street''),
      (''tourism'', ''attraction''), (''shop'', ''deli''), (''amenity'', ''restaurant''),
      (''name'', ''Cafe X'')]"
  have s: "describe_spec ?t =
     ''Amenity: restaurant; Shop: deli; Tourism: attraction; Street: Main Street; City: Patna; Cuisine: italian; open late''"
    by code_simp
  have n: "\<forall>k \<in> set (map fst describe_fields). get [(''name'', ''Cafe X'')] k = None"
    by code_simp
  from description_fields_in_order [of ?t]
  have "get_description_xml ?t = describe_spec ?t" by blast
  from this s have full: "get_description_xml ?t =
     ''Amenity: restaurant; Shop: deli; Tourism: attraction; Street: Main Street; City: Patna; Cuisine: italian; open late''"
    by (rule trans)
  from description_fields_in_order [of "[(''name'', ''Cafe X'')]"] n
  have none: "get_description_xml [(''name'', ''Cafe X'')] = ''OSM Point of Interest''"
    by blast
  from full none show ?thesis by (rule conjI)
qed

end
